theory Spec2Isabelle
  imports Main
begin

unbundle bit_operations_syntax

section \<open>The Braille byte codec of brailleify.py\<close>

text \<open>
  The module maps every byte to one Braille cell of the Unicode block U+2800..U+28FF and
  back. Its docstring numbers the bits of a byte 87654321 and rearranges them to
  15234678 before the cell is looked up.

  Python integers are unbounded, so a byte is an \<open>int\<close>: \<open>&\<close> and \<open>|\<close> are the two's
  complement operations \<open>AND\<close> and \<open>OR\<close> of HOL on \<open>int\<close>, \<open><<\<close> is \<open>push_bit\<close> and
  \<open>>>\<close> (flooring) is \<open>drop_bit\<close>. Python's \<open>|\<close> associates to the left and \<open>OR\<close> to
  the right; the operation is associative, and the seven terms are kept in the order of
  the source.
\<close>

subsection \<open>Data\<close>

text \<open>The only exception the builtins used by the module can raise on these inputs.\<close>

datatype py_error = ValueError

text \<open>A character of a Python \<open>str\<close>, given by its code point.\<close>

datatype uchar = UChar int

text \<open>\<open>ord(c)\<close>: the code point of a character.\<close>

fun py_ord :: "uchar \<Rightarrow> int" where
  "py_ord (UChar n) = n"

text \<open>\<open>chr(i)\<close>: raises ValueError unless \<open>i\<close> is in \<open>range(0x110000)\<close>.\<close>

definition py_chr :: "int \<Rightarrow> py_error + uchar" where
  "py_chr i = (if 0 \<le> i \<and> i < 0x110000 then Inr (UChar i) else Inl ValueError)"

text \<open>
  One element handed to \<open>bytes(...)\<close>: raises ValueError unless it is in \<open>range(256)\<close>.
\<close>

definition py_byte :: "int \<Rightarrow> py_error + int" where
  "py_byte i = (if 0 \<le> i \<and> i < 256 then Inr i else Inl ValueError)"

text \<open>
  \<open>''.join(f(x) for x in xs)\<close> and \<open>bytes(f(x) for x in xs)\<close> consume a generator from
  left to right; the first element that raises aborts the whole call.
\<close>

fun consume :: "('a \<Rightarrow> py_error + 'b) \<Rightarrow> 'a list \<Rightarrow> py_error + 'b list" where
  "consume f [] = Inr []"
| "consume f (x # xs) =
     (case f x of
        Inl e \<Rightarrow> Inl e
      | Inr y \<Rightarrow> (case consume f xs of Inl e \<Rightarrow> Inl e | Inr ys \<Rightarrow> Inr (y # ys)))"

subsection \<open>The functions of the module\<close>

definition BRAILLE_START_POINT :: int where
  "BRAILLE_START_POINT = 0x2800"

definition shuffle :: "int \<Rightarrow> int" where
  "shuffle byte =
     (push_bit 7 (byte AND 0b00000001)) OR
     (push_bit 4 (byte AND 0b00000010)) OR
     (push_bit 2 (byte AND 0b00010100)) OR
     (drop_bit 3 (byte AND 0b00100000)) OR
     (drop_bit 5 (byte AND 0b01000000)) OR
     (drop_bit 7 (byte AND 0b10000000)) OR
     (byte AND 0b00001000)"

definition unshuffle :: "int \<Rightarrow> int" where
  "unshuffle byte =
     (drop_bit 7 (byte AND 0b10000000)) OR
     (drop_bit 4 (byte AND 0b00100000)) OR
     (drop_bit 2 (byte AND 0b01010000)) OR
     (push_bit 3 (byte AND 0b00000100)) OR
     (push_bit 5 (byte AND 0b00000010)) OR
     (push_bit 7 (byte AND 0b00000001)) OR
     (byte AND 0b00001000)"

definition brailleify :: "int list \<Rightarrow> py_error + uchar list" where
  "brailleify data = consume (\<lambda>byte. py_chr (BRAILLE_START_POINT + shuffle byte)) data"

definition unbrailleify :: "uchar list \<Rightarrow> py_error + int list" where
  "unbrailleify braille =
     consume (\<lambda>c. py_byte (unshuffle (py_ord c - BRAILLE_START_POINT))) braille"

subsection \<open>Vocabulary of the properties\<close>

text \<open>A byte value, and a character of the Braille pattern block.\<close>

definition is_byte :: "int \<Rightarrow> bool" where
  "is_byte b = (0 \<le> b \<and> b \<le> 255)"

definition in_braille_block :: "uchar \<Rightarrow> bool" where
  "in_braille_block c = (0x2800 \<le> py_ord c \<and> py_ord c \<le> 0x28FF)"

section \<open>Bits of the two permutations\<close>

lemma bit_pow2_int: "bit ((2::int) ^ k) m \<longleftrightarrow> m = k"
  by (auto simp add: bit_exp_iff)

lemma mask_bits:
  "bit (2::int) m \<longleftrightarrow> m = 1"
  "bit (4::int) m \<longleftrightarrow> m = 2"
  "bit (8::int) m \<longleftrightarrow> m = 3"
  "bit (16::int) m \<longleftrightarrow> m = 4"
  "bit (32::int) m \<longleftrightarrow> m = 5"
  "bit (64::int) m \<longleftrightarrow> m = 6"
  "bit (128::int) m \<longleftrightarrow> m = 7"
  using bit_pow2_int [of 1 m] bit_pow2_int [of 2 m] bit_pow2_int [of 3 m]
    bit_pow2_int [of 4 m] bit_pow2_int [of 5 m] bit_pow2_int [of 6 m] bit_pow2_int [of 7 m]
  by simp_all

lemma mask_bits_pair:
  "bit (20::int) m \<longleftrightarrow> m = 2 \<or> m = 4"
  "bit (80::int) m \<longleftrightarrow> m = 4 \<or> m = 6"
proof -
  have "(20::int) = 4 OR 16" by simp
  then show "bit (20::int) m \<longleftrightarrow> m = 2 \<or> m = 4"
    by (simp only: bit_or_iff mask_bits)
  have "(80::int) = 16 OR 64" by simp
  then show "bit (80::int) m \<longleftrightarrow> m = 4 \<or> m = 6"
    by (simp only: bit_or_iff mask_bits)
qed

text \<open>Which bit of the argument every bit of \<open>shuffle\<close> and of \<open>unshuffle\<close> is.\<close>

lemma bit_shuffle:
  "bit (shuffle b) n \<longleftrightarrow>
     (n = 7 \<and> bit b 0) \<or> (n = 5 \<and> bit b 1) \<or> (n = 4 \<and> bit b 2) \<or> (n = 3 \<and> bit b 3) \<or>
     (n = 6 \<and> bit b 4) \<or> (n = 2 \<and> bit b 5) \<or> (n = 1 \<and> bit b 6) \<or> (n = 0 \<and> bit b 7)"
  unfolding shuffle_def
  by (simp add: bit_simps mask_bits mask_bits_pair conj_disj_distribL cong: rev_conj_cong) blast?

lemma bit_unshuffle:
  "bit (unshuffle b) n \<longleftrightarrow>
     (n = 0 \<and> bit b 7) \<or> (n = 1 \<and> bit b 5) \<or> (n = 2 \<and> bit b 4) \<or> (n = 3 \<and> bit b 3) \<or>
     (n = 4 \<and> bit b 6) \<or> (n = 5 \<and> bit b 2) \<or> (n = 6 \<and> bit b 1) \<or> (n = 7 \<and> bit b 0)"
  unfolding unshuffle_def
  by (simp add: bit_simps mask_bits mask_bits_pair conj_disj_distribL cong: rev_conj_cong) blast?

text \<open>The eight bit positions of a byte, in the order of the masks of \<open>shuffle\<close>.\<close>

lemma low_position:
  "n < 8 \<longleftrightarrow> (n = 7 \<or> n = 5 \<or> n = 4 \<or> n = 3 \<or> n = 6 \<or> n = 2 \<or> n = 1 \<or> n = (0::nat))"
  by arith

text \<open>
  Both functions read the low eight bits of their argument only and write the low eight
  bits of their result only; each undoes the other on those bits.
\<close>

lemma unshuffle_shuffle_take_bit: "unshuffle (shuffle b) = take_bit 8 b"
proof (rule bit_eqI)
  fix n :: nat
  show "bit (unshuffle (shuffle b)) n \<longleftrightarrow> bit (take_bit 8 b) n"
    by (auto simp add: bit_unshuffle bit_shuffle bit_take_bit_iff low_position)
qed

lemma shuffle_unshuffle_take_bit: "shuffle (unshuffle b) = take_bit 8 b"
proof (rule bit_eqI)
  fix n :: nat
  show "bit (shuffle (unshuffle b)) n \<longleftrightarrow> bit (take_bit 8 b) n"
    by (auto simp add: bit_unshuffle bit_shuffle bit_take_bit_iff low_position)
qed

lemma shuffle_take_bit: "take_bit 8 (shuffle b) = shuffle b"
  by (rule bit_eqI) (auto simp add: bit_shuffle bit_take_bit_iff)

lemma unshuffle_take_bit: "take_bit 8 (unshuffle b) = unshuffle b"
  by (rule bit_eqI) (auto simp add: bit_unshuffle bit_take_bit_iff)

lemma unshuffle_of_take_bit: "unshuffle (take_bit 8 b) = unshuffle b"
  by (rule bit_eqI) (auto simp add: bit_unshuffle bit_take_bit_iff)

lemma shuffle_of_take_bit: "shuffle (take_bit 8 b) = shuffle b"
  by (rule bit_eqI) (auto simp add: bit_shuffle bit_take_bit_iff)

lemma shuffle_bounds: "0 \<le> shuffle b \<and> shuffle b < 256"
proof -
  have "0 \<le> take_bit 8 (shuffle b) \<and> take_bit 8 (shuffle b) < 256"
    using take_bit_int_less_exp [of 8 "shuffle b"] by simp
  then show ?thesis by (simp add: shuffle_take_bit)
qed

lemma unshuffle_bounds: "0 \<le> unshuffle b \<and> unshuffle b < 256"
proof -
  have "0 \<le> take_bit 8 (unshuffle b) \<and> take_bit 8 (unshuffle b) < 256"
    using take_bit_int_less_exp [of 8 "unshuffle b"] by simp
  then show ?thesis by (simp add: unshuffle_take_bit)
qed

lemma take_bit_byte: "is_byte b \<Longrightarrow> take_bit 8 b = b"
  by (simp add: is_byte_def take_bit_int_eq_self)

section \<open>The two generators never raise\<close>

lemma consume_all_Inr: "(\<And>x. f x = Inr (g x)) \<Longrightarrow> consume f xs = Inr (map g xs)"
  by (induction xs) simp_all

lemma py_chr_cell: "py_chr (BRAILLE_START_POINT + shuffle b) = Inr (UChar (0x2800 + shuffle b))"
  using shuffle_bounds [of b] by (simp add: py_chr_def BRAILLE_START_POINT_def)

lemma py_byte_unshuffle: "py_byte (unshuffle x) = Inr (unshuffle x)"
  using unshuffle_bounds [of x] by (simp add: py_byte_def)

lemma brailleify_map: "brailleify data = Inr (map (\<lambda>b. UChar (0x2800 + shuffle b)) data)"
  unfolding brailleify_def by (rule consume_all_Inr) (rule py_chr_cell)

lemma unbrailleify_map:
  "unbrailleify braille = Inr (map (\<lambda>c. unshuffle (py_ord c - 0x2800)) braille)"
  unfolding unbrailleify_def
  by (rule consume_all_Inr) (simp add: py_byte_unshuffle BRAILLE_START_POINT_def)

lemma UChar_py_ord: "UChar (py_ord c) = c"
  by (cases c) simp

section \<open>Bytes and cells\<close>

lemma unshuffle_shuffle_byte: "is_byte b \<Longrightarrow> unshuffle (shuffle b) = b"
  by (simp add: unshuffle_shuffle_take_bit take_bit_byte)

lemma shuffle_unshuffle_byte: "is_byte b \<Longrightarrow> shuffle (unshuffle b) = b"
  by (simp add: shuffle_unshuffle_take_bit take_bit_byte)

lemma is_byte_shuffle: "is_byte (shuffle b)"
  using shuffle_bounds [of b] by (simp add: is_byte_def)

lemma is_byte_unshuffle: "is_byte (unshuffle b)"
  using unshuffle_bounds [of b] by (simp add: is_byte_def)

lemma block_offset_byte: "in_braille_block c \<Longrightarrow> is_byte (py_ord c - 0x2800)"
  by (simp add: in_braille_block_def is_byte_def)

lemma unshuffle_mod: "unshuffle (x mod 256) = unshuffle x"
  using unshuffle_of_take_bit [of x] by (simp add: take_bit_eq_mod)

section \<open>The claims\<close>

subsection \<open>Round trip from bytes\<close>

text \<open>
  Claim C1. For every finite sequence \<open>S\<close> of bytes (each element in 0..255), decoding the
  encoding of \<open>S\<close> gives \<open>S\<close> back: \<open>brailleify S\<close> returns a string, and
  \<open>unbrailleify\<close> of that string returns exactly \<open>S\<close>.
\<close>

theorem decode_encode_roundtrip:
  assumes "\<forall>b \<in> set S. is_byte b"
  shows "\<exists>t. brailleify S = Inr t \<and> unbrailleify t = Inr S"
proof -
  have "map ((\<lambda>c. unshuffle (py_ord c - 0x2800)) \<circ> (\<lambda>b. UChar (0x2800 + shuffle b))) S = S"
    using assms by (intro map_idI) (simp add: unshuffle_shuffle_byte)
  then show ?thesis
    by (simp add: brailleify_map unbrailleify_map)
qed

theorem decode_encode_roundtrip_witness:
  "is_byte 0 \<and> is_byte 0xC9 \<and> is_byte 255 \<and>
   (\<exists>t. brailleify [0, 0xC9, 255] = Inr t \<and> unbrailleify t = Inr [0, 0xC9, 255])"
  using decode_encode_roundtrip [of "[0, 0xC9, 255]"] by (simp add: is_byte_def)

subsection \<open>Where each bit goes\<close>

text \<open>
  Claim C2, as amended. For every byte \<open>b\<close> (indeed for every integer), \<open>shuffle\<close>
  relocates the bits as the docstring's 87654321 to 15234678 says (0-indexed, 0 = least
  significant): source bit 0 to destination 7, 1 to 5, 2 to 4, 4 to 6, 5 to 2, 6 to 1,
  7 to 0, and 3 to 3 unchanged. The destinations of the source bits 1, 2 and 4 are
  5, 4 and 6, not 4, 6 and 5.
\<close>

theorem shuffle_bit_mapping:
  "(bit (shuffle b) 7 \<longleftrightarrow> bit b 0) \<and> (bit (shuffle b) 5 \<longleftrightarrow> bit b 1) \<and>
   (bit (shuffle b) 4 \<longleftrightarrow> bit b 2) \<and> (bit (shuffle b) 6 \<longleftrightarrow> bit b 4) \<and>
   (bit (shuffle b) 2 \<longleftrightarrow> bit b 5) \<and> (bit (shuffle b) 1 \<longleftrightarrow> bit b 6) \<and>
   (bit (shuffle b) 0 \<longleftrightarrow> bit b 7) \<and> (bit (shuffle b) 3 \<longleftrightarrow> bit b 3)"
  by (simp add: bit_shuffle)

text \<open>
  The byte 2 has source bit 1 set and nothing else. Its image is 32, which is bit 5:
  destination bit 4 is clear.
\<close>

theorem spec_table_counterexample:
  "bit (2::int) 1 \<and> \<not> bit (shuffle 2) 4 \<and> shuffle 2 = 32"
  by (simp add: shuffle_def)

subsection \<open>The permutation and its inverse\<close>

text \<open>
  Claim C4. For every byte \<open>b\<close> in 0..255, \<open>unshuffle (shuffle b) = b\<close> and
  \<open>shuffle (unshuffle b) = b\<close>, and \<open>shuffle\<close> is a permutation of the set 0..255:
  it is injective there and its image is the whole set.
\<close>

theorem shuffle_unshuffle_bijection:
  assumes "is_byte b"
  shows "unshuffle (shuffle b) = b \<and> shuffle (unshuffle b) = b \<and>
         bij_betw shuffle {0..255} {0..255}"
proof -
  have "bij_betw shuffle {0..255} {0..255}"
  proof (rule bij_betw_byWitness [where f' = unshuffle])
    show "\<forall>a\<in>{0..255}. unshuffle (shuffle a) = a"
      by (simp add: unshuffle_shuffle_byte is_byte_def)
    show "\<forall>a'\<in>{0..255}. shuffle (unshuffle a') = a'"
      by (simp add: shuffle_unshuffle_byte is_byte_def)
    show "shuffle ` {0..255} \<subseteq> {0..255}"
      using is_byte_shuffle by (auto simp add: is_byte_def)
    show "unshuffle ` {0..255} \<subseteq> {0..255}"
      using is_byte_unshuffle by (auto simp add: is_byte_def)
  qed
  with assms show ?thesis
    by (simp add: unshuffle_shuffle_byte shuffle_unshuffle_byte)
qed

theorem shuffle_unshuffle_bijection_witness:
  "is_byte 0xC9 \<and> unshuffle (shuffle 0xC9) = 0xC9 \<and> shuffle (unshuffle 0xC9) = 0xC9 \<and>
   bij_betw shuffle {0..255} {0..255}"
  using shuffle_unshuffle_bijection [of "0xC9"] by (simp add: is_byte_def)

subsection \<open>The doctests\<close>

text \<open>
  Claim C5. The concrete vectors hold exactly. The four Braille strings are written by
  their code points: U+2809 U+28C0 U+2847 U+28B8, U+282D U+28D2 U+2877 U+28BE and
  U+288B U+2859 U+28E1 U+28CC; the first of them decodes to the four bytes it was
  encoded from.
\<close>

theorem doctest_vectors:
  "brailleify [0b10001000, 0b00010001, 0b11110000, 0b00001111]
     = Inr [UChar 0x2809, UChar 0x28C0, UChar 0x2847, UChar 0x28B8] \<and>
   brailleify [0b10101010, 0b01010101, 0b11110110, 0b01101111]
     = Inr [UChar 0x282D, UChar 0x28D2, UChar 0x2877, UChar 0x28BE] \<and>
   brailleify [0b11001001, 0b10011100, 0b10010011, 0b00111001]
     = Inr [UChar 0x288B, UChar 0x2859, UChar 0x28E1, UChar 0x28CC] \<and>
   unbrailleify [UChar 0x2809, UChar 0x28C0, UChar 0x2847, UChar 0x28B8]
     = Inr [0b10001000, 0b00010001, 0b11110000, 0b00001111]"
  by (simp add: brailleify_def unbrailleify_def py_chr_def py_byte_def
      BRAILLE_START_POINT_def shuffle_def unshuffle_def)

subsection \<open>Empty input\<close>

text \<open>
  Claim C8. \<open>brailleify\<close> of the empty byte sequence returns the empty string, and
  \<open>unbrailleify\<close> of the empty string returns the empty byte sequence.
\<close>

theorem empty_input: "brailleify [] = Inr [] \<and> unbrailleify [] = Inr []"
  by (simp add: brailleify_def unbrailleify_def)

subsection \<open>Round trip from strings\<close>

text \<open>
  Claim C9. For every string \<open>t\<close> all of whose characters have code points in
  0x2800..0x28FF, encoding the decoding of \<open>t\<close> gives \<open>t\<close> back.
\<close>

theorem encode_decode_roundtrip:
  assumes "\<forall>c \<in> set t. in_braille_block c"
  shows "\<exists>bs. unbrailleify t = Inr bs \<and> brailleify bs = Inr t"
proof -
  have "map ((\<lambda>b. UChar (0x2800 + shuffle b)) \<circ> (\<lambda>c. unshuffle (py_ord c - 0x2800))) t = t"
    using assms
    by (intro map_idI) (simp add: shuffle_unshuffle_byte block_offset_byte UChar_py_ord)
  then show ?thesis
    by (simp add: brailleify_map unbrailleify_map)
qed

theorem encode_decode_roundtrip_witness:
  "in_braille_block (UChar 0x2809) \<and> in_braille_block (UChar 0x28FF) \<and>
   (\<exists>bs. unbrailleify [UChar 0x2809, UChar 0x28FF] = Inr bs \<and>
      brailleify bs = Inr [UChar 0x2809, UChar 0x28FF])"
  using encode_decode_roundtrip [of "[UChar 0x2809, UChar 0x28FF]"]
  by (simp add: in_braille_block_def)

subsection \<open>Characters outside the Braille block\<close>

text \<open>
  Claim C3, as amended. \<open>unbrailleify\<close> has no check of the code points. For every
  input string containing at least one character whose code point lies outside
  0x2800..0x28FF (in particular a string containing \<open>A\<close>, code point 0x41), it does not
  fail: it accepts the entire input and returns one byte per character, in input order,
  the byte of a character \<open>c\<close> being \<open>unshuffle\<close> of the integer
  \<open>ord(c) - 0x2800\<close>, whatever its sign or size.
\<close>

theorem unbrailleify_accepts_outside_block:
  assumes "c \<in> set t" and "\<not> in_braille_block c"
  shows "unbrailleify t = Inr (map (\<lambda>c. unshuffle (py_ord c - BRAILLE_START_POINT)) t)"
  by (simp add: unbrailleify_map BRAILLE_START_POINT_def)

theorem unbrailleify_accepts_outside_block_witness:
  "UChar 0x41 \<in> set [UChar 0x2809, UChar 0x41] \<and> \<not> in_braille_block (UChar 0x41) \<and>
   unbrailleify [UChar 0x2809, UChar 0x41] = Inr [0x88, 0x90]"
  using unbrailleify_accepts_outside_block [of "UChar 0x41" "[UChar 0x2809, UChar 0x41]"]
  by (simp add: in_braille_block_def BRAILLE_START_POINT_def unshuffle_def)

text \<open>
  The string \<open>A\<close> is not rejected: \<open>0x41 - 0x2800 = -10175\<close>, whose low eight bits are
  those of 0x41, and the result is the single byte 0x90.
\<close>

theorem unbrailleify_A_counterexample:
  "\<not> in_braille_block (UChar 0x41) \<and> unbrailleify [UChar 0x41] = Inr [0x90]"
  by (simp add: in_braille_block_def unbrailleify_def py_byte_def BRAILLE_START_POINT_def
      unshuffle_def)

subsection \<open>Element by element\<close>

text \<open>
  Claim C6. Both functions work elementwise and keep the order. For every byte sequence
  \<open>S\<close> (indeed every list of integers), \<open>brailleify S\<close> has one character per element,
  the \<open>i\<close>-th being \<open>chr(0x2800 + shuffle(S[i]))\<close>. For every string \<open>t'\<close> of
  characters in 0x2800..0x28FF (indeed every string), \<open>unbrailleify t'\<close> has one byte per
  character, the \<open>i\<close>-th being \<open>unshuffle(ord(t'[i]) - 0x2800)\<close>.
\<close>

theorem elementwise:
  "(\<exists>t. brailleify S = Inr t \<and> length t = length S \<and>
      (\<forall>i < length S. py_chr (0x2800 + shuffle (S ! i)) = Inr (t ! i))) \<and>
   (\<exists>bs. unbrailleify t' = Inr bs \<and> length bs = length t' \<and>
      (\<forall>i < length t'. bs ! i = unshuffle (py_ord (t' ! i) - 0x2800)))"
  using py_chr_cell by (simp add: brailleify_map unbrailleify_map BRAILLE_START_POINT_def)

theorem elementwise_witness:
  "(\<exists>t. brailleify [1, 2] = Inr t \<and> length t = 2 \<and>
      py_chr (0x2800 + shuffle 1) = Inr (t ! 0) \<and> py_chr (0x2800 + shuffle 2) = Inr (t ! 1)) \<and>
   (\<exists>bs. unbrailleify [UChar 0x2880, UChar 0x2820] = Inr bs \<and> length bs = 2 \<and>
      bs ! 0 = unshuffle (0x2880 - 0x2800) \<and> bs ! 1 = unshuffle (0x2820 - 0x2800))"
  using elementwise [of "[1, 2]" "[UChar 0x2880, UChar 0x2820]"]
  by (auto simp add: All_less_Suc)

subsection \<open>Range of the encoding\<close>

text \<open>
  Claim C7. For every byte \<open>b\<close> (indeed every integer), \<open>0 \<le> shuffle b \<le> 255\<close>, and
  for every byte sequence \<open>S\<close>, \<open>brailleify S\<close> returns a string all of whose characters
  have a code point in the closed range 0x2800..0x28FF.
\<close>

theorem encode_range:
  "0 \<le> shuffle b \<and> shuffle b \<le> 255 \<and>
   (\<exists>t. brailleify S = Inr t \<and> (\<forall>c \<in> set t. 0x2800 \<le> py_ord c \<and> py_ord c \<le> 0x28FF))"
  using is_byte_shuffle by (auto simp add: brailleify_map is_byte_def)

theorem encode_range_witness:
  "0 \<le> shuffle 255 \<and> shuffle 255 \<le> 255 \<and>
   (\<exists>t. brailleify [0, 255] = Inr t \<and> 0x2800 \<le> py_ord (t ! 0) \<and> py_ord (t ! 0) \<le> 0x28FF \<and>
      0x2800 \<le> py_ord (t ! 1) \<and> py_ord (t ! 1) \<le> 0x28FF)"
  using encode_range [of 255 "[0, 255]"] by (auto simp add: brailleify_map)

subsection \<open>Decoding is total\<close>

text \<open>
  Claim C10. \<open>unbrailleify\<close> is total over all strings and never raises: for every input
  string it returns exactly one byte per character, and the byte of a character \<open>c\<close> is
  a function of \<open>(ord(c) - 0x2800) mod 256\<close> alone, namely \<open>unshuffle\<close> of that residue.
  Characters outside the block 0x2800..0x28FF are therefore decoded by this wrap-around
  and not rejected.
\<close>

theorem unbrailleify_total:
  "\<exists>bs. unbrailleify t = Inr bs \<and> length bs = length t \<and>
     (\<forall>i < length t. bs ! i = unshuffle ((py_ord (t ! i) - 0x2800) mod 256))"
  by (simp add: unbrailleify_map unshuffle_mod)

theorem unbrailleify_total_witness:
  "\<exists>bs. unbrailleify [UChar 0x41, UChar 0x10FFFF] = Inr bs \<and> length bs = 2 \<and>
     bs ! 0 = unshuffle 0x41 \<and> bs ! 1 = unshuffle 0xFF"
  using unbrailleify_total [of "[UChar 0x41, UChar 0x10FFFF]"]
  by (auto simp add: All_less_Suc)

end
